theory Spec2Isabelle
  imports Main
begin

section \<open>Python values, exceptions and containers\<close>

text \<open>
  The decorators of \<^verbatim>\<open>pandera/decorators.py\<close> move Python objects between the
  arguments of a call, the schema and the wrapped function.  The values that matter to
  them are integers, strings, list-like and dict-like objects and data frames; a data
  frame is a column-addressable table (column name to the values of the column).
\<close>

datatype pyval =
    PNone
  | PInt int
  | PStr string
  | PList "pyval list"
  | PDict "(pyval \<times> pyval) list"
  | PFrame "(string \<times> pyval list) list"

text \<open>
  Exceptions are values.  \<open>SchemaError\<close> is the class of \<^verbatim>\<open>pandera.errors\<close>; the
  others are Python's builtins.  Each carries the text that \<^verbatim>\<open>str(e)\<close> prints, except
  \<open>KeyError\<close>, which carries the missing key.
\<close>

datatype py_error =
    SchemaError string
  | IndexError string
  | KeyError pyval
  | ValueError string
  | TypeError string
  | OtherError string

type_synonym 'a result = "py_error + 'a"

text \<open>
  \<^verbatim>\<open>xs[i]\<close> on a list: a negative index counts from the end, and an index outside the
  list raises \<open>IndexError\<close>.  The result is the position read or written.
\<close>

definition list_index :: "'a list \<Rightarrow> int \<Rightarrow> nat result" where
  "list_index xs i =
     (let n = int (length xs); j = (if i < 0 then i + n else i)
      in if 0 \<le> j \<and> j < n then Inr (nat j)
         else Inl (IndexError ''list index out of range''))"

text \<open>
  A dict, a keyword-argument dict and an \<^verbatim>\<open>OrderedDict\<close> keep their keys in insertion
  order; assigning to a key that is present replaces its value in place, assigning to a
  new key appends it.
\<close>

fun dict_set :: "'k \<Rightarrow> 'v \<Rightarrow> ('k \<times> 'v) list \<Rightarrow> ('k \<times> 'v) list" where
  "dict_set k v [] = [(k, v)]"
| "dict_set k v (p # ps) = (if fst p = k then (k, v) # ps else p # dict_set k v ps)"

definition OrderedDict :: "('k \<times> 'v) list \<Rightarrow> ('k \<times> 'v) list" where
  "OrderedDict ps = foldl (\<lambda>d p. dict_set (fst p) (snd p) d) [] ps"

definition dict_values :: "('k \<times> 'v) list \<Rightarrow> 'v list" where
  "dict_values d = map snd d"

text \<open>
  \<^verbatim>\<open>out[key]\<close> on the object a function returned: a list-like object is indexed by
  position, a dict-like object by key, a data frame by column name (the column comes
  back as the list of its values); anything else is not subscriptable.
\<close>

fun py_getitem :: "pyval \<Rightarrow> pyval \<Rightarrow> pyval result" where
  "py_getitem (PList xs) (PInt i) =
     (case list_index xs i of Inl e \<Rightarrow> Inl e | Inr j \<Rightarrow> Inr (xs ! j))"
| "py_getitem (PList xs) k = Inl (TypeError ''list indices must be integers or slices'')"
| "py_getitem (PDict kvs) k =
     (case map_of kvs k of None \<Rightarrow> Inl (KeyError k) | Some v \<Rightarrow> Inr v)"
| "py_getitem (PFrame cols) (PStr c) =
     (case map_of cols c of None \<Rightarrow> Inl (KeyError (PStr c)) | Some col \<Rightarrow> Inr (PList col))"
| "py_getitem (PFrame cols) k = Inl (KeyError k)"
| "py_getitem (PStr s) (PInt i) =
     (case list_index s i of Inl e \<Rightarrow> Inl (IndexError ''string index out of range'')
      | Inr j \<Rightarrow> Inr (PStr [s ! j]))"
| "py_getitem (PStr s) k = Inl (TypeError ''string indices must be integers'')"
| "py_getitem x k = Inl (TypeError ''object is not subscriptable'')"

text \<open>\<^verbatim>\<open>'%s' % n\<close> for an integer: its decimal digits, with a sign when negative.\<close>

definition digit_char :: "nat \<Rightarrow> char" where
  "digit_char d = char_of (48 + d)"

fun str_of_nat :: "nat \<Rightarrow> string" where
  "str_of_nat n =
     (if n < 10 then [digit_char n] else str_of_nat (n div 10) @ [digit_char (n mod 10)])"

declare str_of_nat.simps [simp del]

definition str_of_int :: "int \<Rightarrow> string" where
  "str_of_int i = (if i < 0 then ''-'' @ str_of_nat (nat (- i)) else str_of_nat (nat i))"

section \<open>The collaborators: schema, wrapped function, selector\<close>

text \<open>
  The schema classes are not part of \<^verbatim>\<open>decorators.py\<close>; the decorators use two things
  of a schema: \<^verbatim>\<open>schema.validate(obj, head, tail, sample, random_state)\<close>, whose four
  sampling parameters default to \<^verbatim>\<open>None\<close>, and the attribute \<^verbatim>\<open>schema.transformer\<close>.
  Both are taken as they come: \<open>validate\<close> is any function to a result, so that every
  theorem below holds for every schema.
\<close>

record schema =
  validate :: "pyval \<Rightarrow> int option \<Rightarrow> int option \<Rightarrow> int option \<Rightarrow> int option \<Rightarrow> pyval result"
  transformer :: "(pyval \<Rightarrow> pyval) option"

text \<open>
  The wrapped function \<^verbatim>\<open>fn\<close>: its \<^verbatim>\<open>__name__\<close>, the parameter names that
  \<^verbatim>\<open>inspect.getfullargspec(fn).args\<close> lists, whether \<^verbatim>\<open>inspect.ismethod(fn)\<close> holds, and
  what calling it with positional and keyword arguments does.
\<close>

record pyfn =
  fn_name :: string
  fn_argspec_args :: "string list"
  fn_ismethod :: bool
  fn_call :: "pyval list \<Rightarrow> (string \<times> pyval) list \<Rightarrow> pyval result"

text \<open>
  \<^verbatim>\<open>obj_getter\<close> is dispatched on its run-time type: \<^verbatim>\<open>None\<close>, an \<^verbatim>\<open>int\<close>, a
  \<^verbatim>\<open>str\<close>, a callable, or anything else.  A callable and a value of any other type
  carry the text of \<^verbatim>\<open>type(obj_getter)\<close>, which the error message prints.
\<close>

datatype obj_getter =
    GNone
  | GInt int
  | GStr string
  | GCallable string "pyval \<Rightarrow> pyval result"
  | GOther string

text \<open>
  What a call of a decorated function does, in order: the calls of
  \<^verbatim>\<open>schema.validate\<close> with their arguments, the calls of the wrapped function with
  theirs, and the warnings issued (\<^verbatim>\<open>warnings.warn\<close> under the default filter records
  the warning and returns).
\<close>

datatype event =
    Validate pyval "int option" "int option" "int option" "int option"
  | Call "pyval list" "(string \<times> pyval) list"
  | Warn string

fun is_validate :: "event \<Rightarrow> bool" where
  "is_validate (Validate x h t s r) = True"
| "is_validate ev = False"

fun is_call :: "event \<Rightarrow> bool" where
  "is_call (Call a k) = True"
| "is_call ev = False"

fun is_warn :: "event \<Rightarrow> bool" where
  "is_warn (Warn m) = True"
| "is_warn ev = False"

section \<open>The decorators\<close>

text \<open>
  \<^verbatim>\<open>_get_fn_argnames\<close>: the declared parameter names, without a leading \<^verbatim>\<open>self\<close> when
  the function is a bound method.  \<^verbatim>\<open>arg_spec_args[0]\<close> raises on an empty list.
\<close>

definition get_fn_argnames :: "pyfn \<Rightarrow> string list result" where
  "get_fn_argnames fn =
     (let arg_spec_args = fn_argspec_args fn
      in if fn_ismethod fn then
           (case arg_spec_args of
              [] \<Rightarrow> Inl (IndexError ''list index out of range'')
            | a # rest \<Rightarrow> if a = ''self'' then Inr rest else Inr arg_spec_args)
         else Inr arg_spec_args)"

text \<open>
  The handler \<^verbatim>\<open>except IndexError as e\<close> of the integer path of \<^verbatim>\<open>check_input\<close>:
  an \<open>IndexError\<close> becomes a \<open>SchemaError\<close> whose message is built from the function's
  name, the index, the number of declared parameters and the text of the error; every
  other exception passes through.  Building the message calls \<^verbatim>\<open>_get_fn_argnames\<close>,
  which may raise itself.
\<close>

definition index_error_message :: "string \<Rightarrow> int \<Rightarrow> nat \<Rightarrow> string \<Rightarrow> string" where
  "index_error_message name i n e =
     ''error in check_input decorator of function '' @ [CHR 0x27] @ name @ [CHR 0x27]
     @ '': the index '' @ [CHR 0x27] @ str_of_int i @ [CHR 0x27]
     @ '' was supplied to the check but this function accepts ''
     @ [CHR 0x27] @ str_of_int (int n) @ [CHR 0x27]
     @ '' arguments, so the maximum index is ''
     @ [CHR 0x27] @ str_of_int (max 0 (int n - 1)) @ [CHR 0x27]
     @ ''. The full error is: '' @ [CHR 0x27] @ e @ [CHR 0x27]"

definition except_IndexError :: "pyfn \<Rightarrow> int \<Rightarrow> py_error \<Rightarrow> pyval result" where
  "except_IndexError fn i err =
     (case err of
        IndexError e \<Rightarrow>
          (case get_fn_argnames fn of
             Inl e' \<Rightarrow> Inl e'
           | Inr names \<Rightarrow>
               Inl (SchemaError (index_error_message (fn_name fn) i (length names) e)))
      | _ \<Rightarrow> Inl err)"

text \<open>
  The handler \<^verbatim>\<open>except errors.SchemaError as e\<close> of both decorators: the message gets
  the decorator's and the function's name in front; every other exception passes
  through.
\<close>

definition schema_error_prefix :: "string \<Rightarrow> string \<Rightarrow> string" where
  "schema_error_prefix decorator name =
     ''error in '' @ decorator @ '' decorator of function '' @ [CHR 0x27] @ name
     @ [CHR 0x27] @ '': ''"

definition except_SchemaError :: "string \<Rightarrow> pyfn \<Rightarrow> py_error \<Rightarrow> pyval result" where
  "except_SchemaError decorator fn err =
     (case err of
        SchemaError e \<Rightarrow> Inl (SchemaError (schema_error_prefix decorator (fn_name fn) @ e))
      | _ \<Rightarrow> Inl err)"

definition unrecognized_type :: "string \<Rightarrow> py_error" where
  "unrecognized_type ty = ValueError (''obj_getter is unrecognized type: '' @ ty)"

text \<open>
  \<^verbatim>\<open>check_input(schema, obj_getter, head, tail, sample, random_state)\<close> applied to
  \<^verbatim>\<open>fn\<close> and called with \<^verbatim>\<open>args\<close> and \<^verbatim>\<open>kwargs\<close>: the events of the call and its
  outcome.
\<close>

definition check_input ::
  "schema \<Rightarrow> obj_getter \<Rightarrow> int option \<Rightarrow> int option \<Rightarrow> int option \<Rightarrow> int option \<Rightarrow>
   pyfn \<Rightarrow> pyval list \<Rightarrow> (string \<times> pyval) list \<Rightarrow> event list \<times> pyval result" where
  "check_input sch getter head tail sample random_state fn args kwargs =
     (case getter of
        GInt i \<Rightarrow>
          (case list_index args i of
             Inl e \<Rightarrow> ([], except_IndexError fn i e)
           | Inr j \<Rightarrow>
               (case validate sch (args ! j) None None None None of
                  Inl e \<Rightarrow>
                    ([Validate (args ! j) None None None None], except_IndexError fn i e)
                | Inr v \<Rightarrow>
                    ([Validate (args ! j) None None None None, Call (args[j := v]) kwargs],
                     fn_call fn (args[j := v]) kwargs)))
      | GStr name \<Rightarrow>
          (case map_of kwargs name of
             Some x \<Rightarrow>
               (case validate sch x None None None None of
                  Inl e \<Rightarrow> ([Validate x None None None None], Inl e)
                | Inr v \<Rightarrow>
                    ([Validate x None None None None, Call args (dict_set name v kwargs)],
                     fn_call fn args (dict_set name v kwargs)))
           | None \<Rightarrow>
               (case get_fn_argnames fn of
                  Inl e \<Rightarrow> ([], Inl e)
                | Inr arg_spec_args \<Rightarrow>
                    (let args_dict = OrderedDict (zip arg_spec_args args)
                     in case map_of args_dict name of
                          None \<Rightarrow> ([], Inl (KeyError (PStr name)))
                        | Some x \<Rightarrow>
                            (case validate sch x None None None None of
                               Inl e \<Rightarrow> ([Validate x None None None None], Inl e)
                             | Inr v \<Rightarrow>
                                 ([Validate x None None None None,
                                   Call (dict_values (dict_set name v args_dict)) kwargs],
                                  fn_call fn (dict_values (dict_set name v args_dict))
                                    kwargs)))))
      | GNone \<Rightarrow>
          (case list_index args 0 of
             Inl e \<Rightarrow> ([], except_SchemaError ''check_input'' fn e)
           | Inr j \<Rightarrow>
               (case validate sch (args ! j) head tail sample random_state of
                  Inl e \<Rightarrow>
                    ([Validate (args ! j) head tail sample random_state],
                     except_SchemaError ''check_input'' fn e)
                | Inr v \<Rightarrow>
                    ([Validate (args ! j) head tail sample random_state,
                      Call (args[j := v]) kwargs],
                     fn_call fn (args[j := v]) kwargs)))
      | GCallable ty g \<Rightarrow> ([], Inl (unrecognized_type ty))
      | GOther ty \<Rightarrow> ([], Inl (unrecognized_type ty)))"

text \<open>
  \<^verbatim>\<open>check_output\<close>: the warning about the transformer, the call of the wrapped
  function, the selection of the object to validate, its validation, and the output of
  the wrapped function as the result.
\<close>

definition transformer_warning :: "string \<Rightarrow> string" where
  "transformer_warning name =
     ''The schema transformer function has no effect in a ''
     @ ''check_output decorator. Please perform the necessary ''
     @ ''transformations in the '' @ [CHR 0x27] @ name @ [CHR 0x27] @ '' function instead.''"

definition select_output :: "obj_getter \<Rightarrow> pyval \<Rightarrow> pyval result" where
  "select_output getter out =
     (case getter of
        GNone \<Rightarrow> Inr out
      | GInt i \<Rightarrow> py_getitem out (PInt i)
      | GStr name \<Rightarrow> py_getitem out (PStr name)
      | GCallable ty g \<Rightarrow> g out
      | GOther ty \<Rightarrow> Inl (unrecognized_type ty))"

definition check_output ::
  "schema \<Rightarrow> obj_getter \<Rightarrow> int option \<Rightarrow> int option \<Rightarrow> int option \<Rightarrow> int option \<Rightarrow>
   pyfn \<Rightarrow> pyval list \<Rightarrow> (string \<times> pyval) list \<Rightarrow> event list \<times> pyval result" where
  "check_output sch getter head tail sample random_state fn args kwargs =
     (let warned = (if transformer sch = None then []
                    else [Warn (transformer_warning (fn_name fn))]);
          called = warned @ [Call args kwargs]
      in case fn_call fn args kwargs of
           Inl e \<Rightarrow> (called, Inl e)
         | Inr out \<Rightarrow>
             (case select_output getter out of
                Inl e \<Rightarrow> (called, Inl e)
              | Inr obj \<Rightarrow>
                  (called @ [Validate obj head tail sample random_state],
                   case validate sch obj head tail sample random_state of
                     Inl e \<Rightarrow> except_SchemaError ''check_output'' fn e
                   | Inr v \<Rightarrow> Inr out)))"

section \<open>Reading the events of a call\<close>

fun validated_objects :: "event list \<Rightarrow> pyval list" where
  "validated_objects [] = []"
| "validated_objects (Validate x h t s r # es) = x # validated_objects es"
| "validated_objects (ev # es) = validated_objects es"

fun sampling_args ::
  "event list \<Rightarrow> (int option \<times> int option \<times> int option \<times> int option) list" where
  "sampling_args [] = []"
| "sampling_args (Validate x h t s r # es) = (h, t, s, r) # sampling_args es"
| "sampling_args (ev # es) = sampling_args es"

text \<open>No validation follows a call of the wrapped function, and the other way round.\<close>

definition no_validate_after_call :: "event list \<Rightarrow> bool" where
  "no_validate_after_call tr =
     (filter is_validate (dropWhile (\<lambda>ev. \<not> is_call ev) tr) = [])"

definition no_call_after_validate :: "event list \<Rightarrow> bool" where
  "no_call_after_validate tr =
     (filter is_call (dropWhile (\<lambda>ev. \<not> is_validate ev) tr) = [])"

section \<open>Concrete inputs\<close>

text \<open>
  A frame with one column; the function \<^verbatim>\<open>def f(x, df)\<close> and the method
  \<^verbatim>\<open>def m(self, df)\<close>, which return what they were given; a schema that accepts every
  object as it is, one whose transformer wraps the object, and one that rejects every
  object.
\<close>

definition example_frame :: pyval where
  "example_frame = PFrame [(''a'', [PInt 1, PInt 2])]"

definition example_fn :: pyfn where
  "example_fn =
     \<lparr>fn_name = ''f'', fn_argspec_args = [''x'', ''df''], fn_ismethod = False,
      fn_call = (\<lambda>args kwargs. Inr (PList (args @ dict_values kwargs)))\<rparr>"

definition example_method :: pyfn where
  "example_method =
     \<lparr>fn_name = ''m'', fn_argspec_args = [''self'', ''df''], fn_ismethod = True,
      fn_call = (\<lambda>args kwargs. Inr (PList (args @ dict_values kwargs)))\<rparr>"

definition accepting_schema :: schema where
  "accepting_schema = \<lparr>validate = (\<lambda>obj h t s r. Inr obj), transformer = None\<rparr>"

definition transforming_schema :: schema where
  "transforming_schema =
     \<lparr>validate = (\<lambda>obj h t s r. Inr (PList [obj])),
      transformer = Some (\<lambda>obj. PList [obj])\<rparr>"

definition rejecting_schema :: schema where
  "rejecting_schema =
     \<lparr>validate = (\<lambda>obj h t s r. Inl (SchemaError ''bad'')), transformer = None\<rparr>"

section \<open>Containers\<close>

lemma keys_dict_set: "fst ` set (dict_set k v d) = insert k (fst ` set d)"
  by (induction d) auto

lemma dict_set_fresh: "k \<notin> fst ` set d \<Longrightarrow> dict_set k v d = d @ [(k, v)]"
  by (induction d) auto

lemma foldl_dict_set_keys:
  "fst ` set (foldl (\<lambda>d p. dict_set (fst p) (snd p) d) acc ps) =
     fst ` set acc \<union> fst ` set ps"
  by (induction ps arbitrary: acc) (auto simp: keys_dict_set)

lemma keys_OrderedDict: "fst ` set (OrderedDict ps) = fst ` set ps"
  by (simp add: OrderedDict_def foldl_dict_set_keys)

text \<open>With distinct keys, as parameter names are, the pairs stay as they were given.\<close>

lemma foldl_dict_set_distinct:
  "distinct (map fst (acc @ ps)) \<Longrightarrow>
   foldl (\<lambda>d p. dict_set (fst p) (snd p) d) acc ps = acc @ ps"
proof (induction ps arbitrary: acc)
  case Nil
  then show ?case by simp
next
  case (Cons p ps)
  have fresh: "fst p \<notin> fst ` set acc" using Cons.prems by auto
  have "dict_set (fst p) (snd p) acc = acc @ [p]"
    using dict_set_fresh [OF fresh, of "snd p"] by simp
  moreover have "distinct (map fst ((acc @ [p]) @ ps))" using Cons.prems by simp
  ultimately show ?case using Cons.IH [of "acc @ [p]"] by simp
qed

lemma OrderedDict_distinct: "distinct (map fst ps) \<Longrightarrow> OrderedDict ps = ps"
  using foldl_dict_set_distinct [of "[]" ps] by (simp add: OrderedDict_def)

lemma map_of_None_keys: "(map_of d k = None) = (k \<notin> fst ` set d)"
  by (simp add: map_of_eq_None_iff)

lemma list_index_Inl:
  "list_index xs i = Inl e \<Longrightarrow> list_index xs i = Inl (IndexError ''list index out of range'')"
  by (auto simp: list_index_def Let_def split: if_splits)

section \<open>Re-raising a schema error\<close>

text \<open>
  The two handlers \<^verbatim>\<open>except errors.SchemaError\<close> put the function's name in front of
  the message and keep the message as the suffix.
\<close>

lemma check_input_None_prefixes:
  assumes "list_index args 0 = Inr j"
    and "validate sch (args ! j) head tail sample random_state = Inl (SchemaError e)"
  shows "snd (check_input sch GNone head tail sample random_state fn args kwargs) =
     Inl (SchemaError (schema_error_prefix ''check_input'' (fn_name fn) @ e))"
  using assms by (simp add: check_input_def except_SchemaError_def)

lemma check_output_prefixes:
  assumes "fn_call fn args kwargs = Inr out"
    and "select_output getter out = Inr obj"
    and "validate sch obj head tail sample random_state = Inl (SchemaError e)"
  shows "snd (check_output sch getter head tail sample random_state fn args kwargs) =
     Inl (SchemaError (schema_error_prefix ''check_output'' (fn_name fn) @ e))"
  using assms by (simp add: check_output_def except_SchemaError_def)

text \<open>
  Claim C1.  When \<^verbatim>\<open>schema.validate\<close> raises a \<open>SchemaError\<close>, the decorator is to raise
  a \<open>SchemaError\<close> whose message is a prefix naming the wrapped function followed by the
  original message, on the \<^verbatim>\<open>None\<close>, integer and string paths of \<^verbatim>\<open>check_input\<close> and in
  \<^verbatim>\<open>check_output\<close>.  The code evaluated on \<^verbatim>\<open>f(1, frame)\<close> with a schema that rejects
  the frame with the message \<^verbatim>\<open>bad\<close>: the integer path and both string paths (argument
  bound by position, argument given by keyword) raise the \<open>SchemaError\<close> with the message
  \<^verbatim>\<open>bad\<close> alone, without the function's name, while the \<^verbatim>\<open>None\<close> path and
  \<^verbatim>\<open>check_output\<close> on the same schema raise it with the prefix.
\<close>

theorem check_input_selector_paths_reraise_unprefixed:
  "snd (check_input rejecting_schema (GInt 1) None None None None example_fn
          [PInt 1, example_frame] []) = Inl (SchemaError ''bad'')
   \<and> snd (check_input rejecting_schema (GStr ''df'') None None None None example_fn
          [PInt 1, example_frame] []) = Inl (SchemaError ''bad'')
   \<and> snd (check_input rejecting_schema (GStr ''df'') None None None None example_fn
          [PInt 1] [(''df'', example_frame)]) = Inl (SchemaError ''bad'')
   \<and> snd (check_input rejecting_schema GNone None None None None example_fn
          [example_frame, PInt 1] []) =
       Inl (SchemaError (schema_error_prefix ''check_input'' ''f'' @ ''bad''))
   \<and> snd (check_output rejecting_schema GNone None None None None example_fn
          [example_frame, PInt 1] []) =
       Inl (SchemaError (schema_error_prefix ''check_output'' ''f'' @ ''bad''))"
  by (simp add: check_input_def check_output_def rejecting_schema_def example_fn_def
      list_index_def except_IndexError_def except_SchemaError_def get_fn_argnames_def
      OrderedDict_def select_output_def)

section \<open>Validating an argument\<close>

text \<open>
  Claim C2.  With an integer \<^verbatim>\<open>obj_getter\<close> that is in range for the positional
  arguments, \<^verbatim>\<open>check_input\<close> validates the argument at that index and then calls the
  wrapped function with that argument replaced by what \<^verbatim>\<open>schema.validate\<close> returned
  (the transformed value when the schema has a transformer), the other arguments and the
  keyword arguments unchanged.
\<close>

theorem check_input_int_replaces_argument:
  assumes "list_index args i = Inr j"
    and "validate sch (args ! j) None None None None = Inr v"
  shows "check_input sch (GInt i) head tail sample random_state fn args kwargs =
     ([Validate (args ! j) None None None None, Call (args[j := v]) kwargs],
      fn_call fn (args[j := v]) kwargs)"
  using assms by (simp add: check_input_def)

theorem check_input_int_replaces_argument_witness:
  "list_index [PInt 1, example_frame] 1 = Inr 1
   \<and> validate transforming_schema ([PInt 1, example_frame] ! 1) None None None None =
       Inr (PList [example_frame])
   \<and> check_input transforming_schema (GInt 1) None None None None example_fn
       [PInt 1, example_frame] [] =
       ([Validate example_frame None None None None,
         Call [PInt 1, PList [example_frame]] []],
        Inr (PList [PInt 1, PList [example_frame]]))"
proof -
  have h1: "list_index [PInt 1, example_frame] 1 = Inr 1"
    by (simp add: list_index_def)
  have h2: "validate transforming_schema ([PInt 1, example_frame] ! 1) None None None None =
       Inr (PList [example_frame])"
    by (simp add: transforming_schema_def)
  show ?thesis
    using h1 h2
      check_input_int_replaces_argument [OF h1 h2, of None None None None example_fn "[]"]
    by (simp add: example_fn_def dict_values_def)
qed

section \<open>Validating a return value\<close>

text \<open>
  Claim C3.  When the wrapped function returns, the object to validate is selected and
  \<^verbatim>\<open>schema.validate\<close> accepts it, \<^verbatim>\<open>check_output\<close> returns the output of the wrapped
  function itself; what \<^verbatim>\<open>schema.validate\<close> returned is not used.
\<close>

theorem check_output_returns_output_unchanged:
  assumes "fn_call fn args kwargs = Inr out"
    and "select_output getter out = Inr obj"
    and "validate sch obj head tail sample random_state = Inr v"
  shows "snd (check_output sch getter head tail sample random_state fn args kwargs) = Inr out"
  using assms by (simp add: check_output_def)

theorem check_output_returns_output_unchanged_witness:
  "fn_call example_fn [example_frame] [] = Inr (PList [example_frame])
   \<and> select_output (GInt 0) (PList [example_frame]) = Inr example_frame
   \<and> validate transforming_schema example_frame None None None None =
       Inr (PList [example_frame])
   \<and> snd (check_output transforming_schema (GInt 0) None None None None example_fn
            [example_frame] []) = Inr (PList [example_frame])"
proof -
  have h1: "fn_call example_fn [example_frame] [] = Inr (PList [example_frame])"
    by (simp add: example_fn_def dict_values_def)
  have h2: "select_output (GInt 0) (PList [example_frame]) = Inr example_frame"
    by (simp add: select_output_def list_index_def)
  have h3: "validate transforming_schema example_frame None None None None =
       Inr (PList [example_frame])"
    by (simp add: transforming_schema_def)
  show ?thesis
    using h1 h2 h3 check_output_returns_output_unchanged [OF h1 h2 h3] by simp
qed

section \<open>Selectors that cannot be resolved\<close>

text \<open>
  Claim C4, as stated: a selector that is out of range or of an unsupported type makes
  the decorator fail with an error that is not a \<open>SchemaError\<close>.  It fails on the integer
  path of \<^verbatim>\<open>check_input\<close>: with index 5 and two positional arguments the handler
  \<^verbatim>\<open>except IndexError\<close> raises a \<open>SchemaError\<close>.
\<close>

theorem check_input_index_out_of_range_is_SchemaError:
  "snd (check_input accepting_schema (GInt 5) None None None None example_fn
          [PInt 1, example_frame] []) =
     Inl (SchemaError (index_error_message ''f'' 5 2 ''list index out of range''))"
  by (simp add: check_input_def example_fn_def list_index_def except_IndexError_def
      get_fn_argnames_def numeral_2_eq_2)

text \<open>
  Claim C4, amended.  A selector of an unsupported type makes \<^verbatim>\<open>check_input\<close> raise
  \<open>ValueError\<close> before anything is validated or called (a callable is unsupported
  there), and makes \<^verbatim>\<open>check_output\<close> raise \<open>ValueError\<close> once the wrapped function has
  returned.  In \<^verbatim>\<open>check_output\<close> an integer selector out of range for a list output
  raises \<open>IndexError\<close>.  In \<^verbatim>\<open>check_input\<close> an integer selector out of range for the
  positional arguments raises a \<open>SchemaError\<close> whose message names the function, the
  index and the number of declared parameters, without validating or calling anything.
\<close>

theorem selector_errors:
  "check_input sch (GOther ty) head tail sample random_state fn args kwargs =
     ([], Inl (ValueError (''obj_getter is unrecognized type: '' @ ty)))
   \<and> check_input sch (GCallable ty g) head tail sample random_state fn args kwargs =
     ([], Inl (ValueError (''obj_getter is unrecognized type: '' @ ty)))
   \<and> (fn_call fn args kwargs = Inr out \<longrightarrow>
        snd (check_output sch (GOther ty) head tail sample random_state fn args kwargs) =
          Inl (ValueError (''obj_getter is unrecognized type: '' @ ty)))
   \<and> (fn_call fn args kwargs = Inr (PList xs) \<and> list_index xs i = Inl e \<longrightarrow>
        snd (check_output sch (GInt i) head tail sample random_state fn args kwargs) =
          Inl (IndexError ''list index out of range''))
   \<and> (list_index args i = Inl e \<and> get_fn_argnames fn = Inr names \<longrightarrow>
        check_input sch (GInt i) head tail sample random_state fn args kwargs =
          ([], Inl (SchemaError
                 (index_error_message (fn_name fn) i (length names)
                    ''list index out of range''))))"
proof -
  have a: "fn_call fn args kwargs = Inr (PList xs) \<and> list_index xs i = Inl e \<longrightarrow>
        snd (check_output sch (GInt i) head tail sample random_state fn args kwargs) =
          Inl (IndexError ''list index out of range'')"
    using list_index_Inl [of xs i e] by (auto simp: check_output_def select_output_def)
  have b: "list_index args i = Inl e \<and> get_fn_argnames fn = Inr names \<longrightarrow>
        check_input sch (GInt i) head tail sample random_state fn args kwargs =
          ([], Inl (SchemaError
                 (index_error_message (fn_name fn) i (length names)
                    ''list index out of range'')))"
    using list_index_Inl [of args i e] by (auto simp: check_input_def except_IndexError_def)
  show ?thesis using a b
    by (simp add: check_input_def check_output_def select_output_def unrecognized_type_def)
qed

theorem selector_errors_witness:
  "fn_call example_fn [PInt 1, example_frame] [] = Inr (PList [PInt 1, example_frame])
   \<and> list_index [PInt 1, example_frame] 5 = Inl (IndexError ''list index out of range'')
   \<and> get_fn_argnames example_fn = Inr [''x'', ''df'']
   \<and> snd (check_output accepting_schema (GOther ''float'') None None None None example_fn
            [PInt 1, example_frame] []) =
        Inl (ValueError ''obj_getter is unrecognized type: float'')
   \<and> snd (check_output accepting_schema (GInt 5) None None None None example_fn
            [PInt 1, example_frame] []) = Inl (IndexError ''list index out of range'')
   \<and> check_input accepting_schema (GInt 5) None None None None example_fn
        [PInt 1, example_frame] [] =
        ([], Inl (SchemaError (index_error_message ''f'' 5 2 ''list index out of range'')))"
proof -
  have h1: "fn_call example_fn [PInt 1, example_frame] [] = Inr (PList [PInt 1, example_frame])"
    by (simp add: example_fn_def dict_values_def)
  have h2: "list_index [PInt 1, example_frame] 5 = Inl (IndexError ''list index out of range'')"
    by (simp add: list_index_def)
  have h3: "get_fn_argnames example_fn = Inr [''x'', ''df'']"
    by (simp add: get_fn_argnames_def example_fn_def)
  have n: "fn_name example_fn = ''f''"
    by (simp add: example_fn_def)
  show ?thesis
    using h1 h2 h3 n
      selector_errors [where fn = example_fn and args = "[PInt 1, example_frame]"
        and kwargs = "[]" and out = "PList [PInt 1, example_frame]"
        and xs = "[PInt 1, example_frame]" and i = 5
        and e = "IndexError ''list index out of range''" and names = "[''x'', ''df'']"
        and sch = accepting_schema and ty = "''float''" and head = None and tail = None
        and sample = None and random_state = None]
    by (simp add: numeral_2_eq_2)
qed

section \<open>Order of validation and call\<close>

text \<open>
  A call through \<^verbatim>\<open>check_input\<close> validates nothing, or validates one object that is
  rejected, or validates one object that is accepted and then calls the function.
\<close>

lemma check_input_trace_cases:
  "fst (check_input sch getter head tail sample random_state fn args kwargs) = []
   \<or> (\<exists>x a b c d e.
         fst (check_input sch getter head tail sample random_state fn args kwargs) =
           [Validate x a b c d] \<and> validate sch x a b c d = Inl e)
   \<or> (\<exists>x a b c d v as kw.
         fst (check_input sch getter head tail sample random_state fn args kwargs) =
           [Validate x a b c d, Call as kw] \<and> validate sch x a b c d = Inr v)"
proof (cases getter)
  case GNone
  then show ?thesis
    by (cases "list_index args 0";
        cases "validate sch (args ! projr (list_index args 0)) head tail sample random_state")
       (simp_all add: check_input_def Let_def)
next
  case (GInt i)
  then show ?thesis
    by (cases "list_index args i";
        cases "validate sch (args ! projr (list_index args i)) None None None None")
       (simp_all add: check_input_def Let_def)
next
  case (GStr name)
  show ?thesis
  proof (cases "map_of kwargs name")
    case (Some x)
    then show ?thesis using GStr
      by (cases "validate sch x None None None None") (simp_all add: check_input_def Let_def)
  next
    case None
    show ?thesis
    proof (cases "get_fn_argnames fn")
      case (Inl e)
      then show ?thesis using GStr None by (simp add: check_input_def Let_def)
    next
      case (Inr names)
      show ?thesis
      proof (cases "map_of (OrderedDict (zip names args)) name")
        case None': None
        then show ?thesis using GStr None Inr by (simp add: check_input_def Let_def)
      next
        case (Some x)
        then show ?thesis using GStr None Inr
          by (cases "validate sch x None None None None") (simp_all add: check_input_def Let_def)
      qed
    qed
  qed
next
  case (GCallable ty g)
  then show ?thesis by (simp add: check_input_def Let_def)
next
  case (GOther ty)
  then show ?thesis by (simp add: check_input_def Let_def)
qed

text \<open>
  Claim C5.  In \<^verbatim>\<open>check_input\<close> no validation follows the call of the wrapped function,
  the function is called at most as often as something was validated, and it is not
  called at all when a validation that took place raised.  In \<^verbatim>\<open>check_output\<close> the
  wrapped function is called exactly once, no call follows a validation, and what is
  validated is selected from the value the call returned: there is no validation when
  the call raised.
\<close>

theorem validation_and_call_order:
  "no_validate_after_call
     (fst (check_input sch getter head tail sample random_state fn args kwargs))
   \<and> length (filter is_call
        (fst (check_input sch getter head tail sample random_state fn args kwargs)))
      \<le> length (filter is_validate
        (fst (check_input sch getter head tail sample random_state fn args kwargs)))
   \<and> (Validate x a b c d
         \<in> set (fst (check_input sch getter head tail sample random_state fn args kwargs))
        \<and> validate sch x a b c d = Inl e
        \<longrightarrow> filter is_call
              (fst (check_input sch getter head tail sample random_state fn args kwargs)) = [])
   \<and> length (filter is_call
        (fst (check_output sch getter head tail sample random_state fn args kwargs))) = 1
   \<and> no_call_after_validate
        (fst (check_output sch getter head tail sample random_state fn args kwargs))
   \<and> validated_objects
        (fst (check_output sch getter head tail sample random_state fn args kwargs)) =
       (case fn_call fn args kwargs of
          Inl e' \<Rightarrow> []
        | Inr out \<Rightarrow> (case select_output getter out of Inl e' \<Rightarrow> [] | Inr obj \<Rightarrow> [obj]))"
proof -
  let ?ci = "fst (check_input sch getter head tail sample random_state fn args kwargs)"
  let ?co = "fst (check_output sch getter head tail sample random_state fn args kwargs)"
  note shape =
    check_input_trace_cases [of sch getter head tail sample random_state fn args kwargs]
  have a: "no_validate_after_call ?ci"
    using shape by (auto simp: no_validate_after_call_def)
  have b: "length (filter is_call ?ci) \<le> length (filter is_validate ?ci)"
    using shape by auto
  have c: "Validate x a b c d \<in> set ?ci \<and> validate sch x a b c d = Inl e
        \<longrightarrow> filter is_call ?ci = []"
    using shape by auto
  have d: "length (filter is_call ?co) = 1"
    by (simp add: check_output_def Let_def split: sum.splits)
  have e: "no_call_after_validate ?co"
    by (simp add: check_output_def no_call_after_validate_def Let_def split: sum.splits)
  have f: "validated_objects ?co =
       (case fn_call fn args kwargs of
          Inl e' \<Rightarrow> []
        | Inr out \<Rightarrow> (case select_output getter out of Inl e' \<Rightarrow> [] | Inr obj \<Rightarrow> [obj]))"
    by (simp add: check_output_def Let_def split: sum.splits)
  from a b c d e f show ?thesis by blast
qed

theorem validation_and_call_order_witness:
  "Validate example_frame None None None None
     \<in> set (fst (check_input rejecting_schema (GInt 1) None None None None example_fn
                 [PInt 1, example_frame] []))
   \<and> validate rejecting_schema example_frame None None None None = Inl (SchemaError ''bad'')
   \<and> filter is_call
        (fst (check_input rejecting_schema (GInt 1) None None None None example_fn
                [PInt 1, example_frame] [])) = []
   \<and> length (filter is_call
        (fst (check_output rejecting_schema (GInt 1) None None None None example_fn
                [PInt 1, example_frame] []))) = 1
   \<and> validated_objects
        (fst (check_output rejecting_schema (GInt 1) None None None None example_fn
                [PInt 1, example_frame] [])) = [example_frame]"
proof -
  have h1: "Validate example_frame None None None None
     \<in> set (fst (check_input rejecting_schema (GInt 1) None None None None example_fn
                 [PInt 1, example_frame] []))"
    by (simp add: check_input_def list_index_def rejecting_schema_def)
  have h2: "validate rejecting_schema example_frame None None None None =
      Inl (SchemaError ''bad'')"
    by (simp add: rejecting_schema_def)
  have out: "fn_call example_fn [PInt 1, example_frame] [] =
      Inr (PList [PInt 1, example_frame])"
    by (simp add: example_fn_def dict_values_def)
  have sel: "select_output (GInt 1) (PList [PInt 1, example_frame]) = Inr example_frame"
    by (simp add: select_output_def list_index_def)
  show ?thesis
    using h1 h2 out sel
      validation_and_call_order [where sch = rejecting_schema and getter = "GInt 1"
        and head = None and tail = None and sample = None and random_state = None
        and fn = example_fn and args = "[PInt 1, example_frame]" and kwargs = "[]"
        and x = example_frame and a = None and b = None and c = None and d = None
        and e = "SchemaError ''bad''"]
    by simp
qed

section \<open>Ways of selecting the object\<close>

text \<open>
  Claim C6.  \<^verbatim>\<open>check_input\<close> validates the positional argument at an integer
  \<^verbatim>\<open>obj_getter\<close>; with a string \<^verbatim>\<open>obj_getter\<close> it validates the keyword argument of
  that name when there is one, and otherwise the positional argument that the declared
  parameter names, zipped with the positional arguments, bind to that name (the
  parameter names of a Python function are distinct);
  \<^verbatim>\<open>_get_fn_argnames\<close> leaves the \<^verbatim>\<open>self\<close> of a bound method out.  \<^verbatim>\<open>check_output\<close>
  validates what a callable \<^verbatim>\<open>obj_getter\<close> extracts from the returned value, and
  \<^verbatim>\<open>check_input\<close> rejects a callable.
\<close>

theorem selection_modes:
  "(list_index args i = Inr j \<longrightarrow>
      validated_objects
        (fst (check_input sch (GInt i) head tail sample random_state fn args kwargs)) =
        [args ! j])
   \<and> (map_of kwargs name = Some x \<longrightarrow>
      validated_objects
        (fst (check_input sch (GStr name) head tail sample random_state fn args kwargs)) =
        [x])
   \<and> (map_of kwargs' name' = None \<and> get_fn_argnames fn' = Inr names \<and> distinct names
        \<and> map_of (zip names args') name' = Some x' \<longrightarrow>
      validated_objects
        (fst (check_input sch (GStr name') head tail sample random_state fn' args' kwargs')) =
        [x'])
   \<and> (fn_ismethod m \<and> fn_argspec_args m = ''self'' # rest \<longrightarrow> get_fn_argnames m = Inr rest)
   \<and> (fn_call fn args kwargs = Inr out \<and> extractor out = Inr obj \<longrightarrow>
      validated_objects
        (fst (check_output sch (GCallable ty extractor) head tail sample random_state
                fn args kwargs)) = [obj])
   \<and> check_input sch (GCallable ty extractor) head tail sample random_state fn args kwargs =
        ([], Inl (unrecognized_type ty))"
proof -
  have a: "list_index args i = Inr j \<longrightarrow>
      validated_objects
        (fst (check_input sch (GInt i) head tail sample random_state fn args kwargs)) =
        [args ! j]"
    by (simp add: check_input_def split: sum.splits)
  have b: "map_of kwargs name = Some x \<longrightarrow>
      validated_objects
        (fst (check_input sch (GStr name) head tail sample random_state fn args kwargs)) =
        [x]"
    by (simp add: check_input_def split: sum.splits)
  have c: "map_of kwargs' name' = None \<and> get_fn_argnames fn' = Inr names \<and> distinct names
        \<and> map_of (zip names args') name' = Some x' \<longrightarrow>
      validated_objects
        (fst (check_input sch (GStr name') head tail sample random_state fn' args' kwargs')) =
        [x']"
  proof (intro impI, elim conjE)
    assume h: "map_of kwargs' name' = None" "get_fn_argnames fn' = Inr names"
      "distinct names" "map_of (zip names args') name' = Some x'"
    have "distinct (map fst (zip names args'))"
      using h(3) by (simp add: map_fst_zip_take)
    then have "OrderedDict (zip names args') = zip names args'"
      by (rule OrderedDict_distinct)
    then show "validated_objects
        (fst (check_input sch (GStr name') head tail sample random_state fn' args' kwargs')) =
        [x']"
      using h by (simp add: check_input_def Let_def split: sum.splits)
  qed
  have d: "fn_ismethod m \<and> fn_argspec_args m = ''self'' # rest \<longrightarrow>
      get_fn_argnames m = Inr rest"
    by (simp add: get_fn_argnames_def)
  have e: "fn_call fn args kwargs = Inr out \<and> extractor out = Inr obj \<longrightarrow>
      validated_objects
        (fst (check_output sch (GCallable ty extractor) head tail sample random_state
                fn args kwargs)) = [obj]"
    by (simp add: check_output_def select_output_def)
  have f: "check_input sch (GCallable ty extractor) head tail sample random_state
        fn args kwargs = ([], Inl (unrecognized_type ty))"
    by (simp add: check_input_def)
  from a b c d e f show ?thesis by blast
qed

theorem selection_modes_witness:
  "list_index [PInt 1, example_frame] 1 = Inr 1
   \<and> validated_objects
        (fst (check_input accepting_schema (GInt 1) None None None None example_fn
                [PInt 1, example_frame] [(''df'', PInt 7)])) = [example_frame]
   \<and> map_of [(''df'', PInt 7)] ''df'' = Some (PInt 7)
   \<and> validated_objects
        (fst (check_input accepting_schema (GStr ''df'') None None None None example_fn
                [PInt 1, example_frame] [(''df'', PInt 7)])) = [PInt 7]
   \<and> map_of ([] :: (string \<times> pyval) list) ''df'' = None
   \<and> get_fn_argnames example_method = Inr [''df'']
   \<and> map_of (zip [''df''] [example_frame]) ''df'' = Some example_frame
   \<and> validated_objects
        (fst (check_input accepting_schema (GStr ''df'') None None None None example_method
                [example_frame] [])) = [example_frame]
   \<and> validated_objects
        (fst (check_output accepting_schema
                (GCallable ''function'' (\<lambda>out. py_getitem out (PInt 1)))
                None None None None example_fn
                [PInt 1, example_frame] [(''df'', PInt 7)])) = [example_frame]"
proof -
  have h1: "list_index [PInt 1, example_frame] 1 = Inr 1"
    by (simp add: list_index_def)
  have h2: "map_of [(''df'', PInt 7)] ''df'' = Some (PInt 7)"
    by simp
  have h3: "map_of ([] :: (string \<times> pyval) list) ''df'' = None"
    by simp
  have h4: "get_fn_argnames example_method = Inr [''df'']"
    by (simp add: get_fn_argnames_def example_method_def)
  have h5: "map_of (zip [''df''] [example_frame]) ''df'' = Some example_frame"
    by simp
  have h6: "fn_ismethod example_method
      \<and> fn_argspec_args example_method = ''self'' # [''df'']"
    by (simp add: example_method_def)
  have h7: "fn_call example_fn [PInt 1, example_frame] [(''df'', PInt 7)] =
      Inr (PList [PInt 1, example_frame, PInt 7])"
    by (simp add: example_fn_def dict_values_def)
  have h8: "py_getitem (PList [PInt 1, example_frame, PInt 7]) (PInt 1) = Inr example_frame"
    by (simp add: list_index_def)
  show ?thesis
    using h1 h2 h3 h4 h5 h6 h7 h8
      selection_modes [where args = "[PInt 1, example_frame]" and i = 1 and j = 1
        and kwargs = "[(''df'', PInt 7)]" and name = "''df''" and x = "PInt 7"
        and kwargs' = "[]" and name' = "''df''" and fn' = example_method
        and names = "[''df'']" and args' = "[example_frame]" and x' = example_frame
        and m = example_method and rest = "[''df'']"
        and fn = example_fn and out = "PList [PInt 1, example_frame, PInt 7]"
        and extractor = "\<lambda>out. py_getitem out (PInt 1)" and obj = example_frame
        and sch = accepting_schema and head = None and tail = None and sample = None
        and random_state = None and ty = "''function''"]
    by simp
qed

section \<open>The transformer warning\<close>

text \<open>
  Claim C7.  A call through \<^verbatim>\<open>check_output\<close> issues the warning about the transformer
  once when \<^verbatim>\<open>schema.transformer\<close> is not \<^verbatim>\<open>None\<close> and no warning otherwise.  The
  warning changes nothing else: the wrapped function is called, and the other events and
  the outcome are those of the same call with a schema without transformer.
\<close>

theorem transformer_warning_is_not_fatal:
  "filter is_warn
     (fst (check_output sch getter head tail sample random_state fn args kwargs)) =
     (if transformer sch = None then [] else [Warn (transformer_warning (fn_name fn))])
   \<and> filter (\<lambda>ev. \<not> is_warn ev)
        (fst (check_output sch getter head tail sample random_state fn args kwargs)) =
      fst (check_output (sch\<lparr>transformer := None\<rparr>) getter head tail sample random_state
             fn args kwargs)
   \<and> snd (check_output sch getter head tail sample random_state fn args kwargs) =
      snd (check_output (sch\<lparr>transformer := None\<rparr>) getter head tail sample random_state
             fn args kwargs)
   \<and> Call args kwargs
        \<in> set (fst (check_output sch getter head tail sample random_state fn args kwargs))"
  by (simp add: check_output_def Let_def split: sum.splits)

theorem transformer_warning_is_not_fatal_witness:
  "check_output transforming_schema GNone None None None None example_fn [example_frame] [] =
     ([Warn (transformer_warning ''f''), Call [example_frame] [],
       Validate (PList [example_frame]) None None None None],
      Inr (PList [example_frame]))
   \<and> filter is_warn
        (fst (check_output transforming_schema GNone None None None None example_fn
                [example_frame] [])) = [Warn (transformer_warning ''f'')]"
proof -
  have t: "transformer transforming_schema \<noteq> None"
    by (simp add: transforming_schema_def)
  have n: "fn_name example_fn = ''f''"
    by (simp add: example_fn_def)
  have r: "check_output transforming_schema GNone None None None None example_fn
      [example_frame] [] =
     ([Warn (transformer_warning ''f''), Call [example_frame] [],
       Validate (PList [example_frame]) None None None None],
      Inr (PList [example_frame]))"
    by (simp add: check_output_def transforming_schema_def example_fn_def
        select_output_def dict_values_def)
  have w: "filter is_warn
        (fst (check_output transforming_schema GNone None None None None example_fn
                [example_frame] [])) =
      (if transformer transforming_schema = None then []
       else [Warn (transformer_warning (fn_name example_fn))])"
    using transformer_warning_is_not_fatal [of transforming_schema GNone None None None None
        example_fn "[example_frame]" "[]"]
    by (rule conjunct1)
  have w': "filter is_warn
        (fst (check_output transforming_schema GNone None None None None example_fn
                [example_frame] [])) = [Warn (transformer_warning ''f'')]"
    using w t n by simp
  show ?thesis
    using r w' by (rule conjI)
qed

section \<open>Sampling parameters\<close>

text \<open>
  Claim C8.  On the \<^verbatim>\<open>None\<close> path \<^verbatim>\<open>check_input\<close> passes head, tail, sample and
  random\_state to \<^verbatim>\<open>schema.validate\<close>.  On the integer and string paths every call of
  \<^verbatim>\<open>schema.validate\<close> has all four at their default \<^verbatim>\<open>None\<close>, and the call through the
  decorator does the same whatever the four are.
\<close>

theorem sampling_forwarded_on_None_path_only:
  "(args \<noteq> [] \<longrightarrow>
      sampling_args
        (fst (check_input sch GNone head tail sample random_state fn args kwargs)) =
        [(head, tail, sample, random_state)])
   \<and> set (sampling_args
        (fst (check_input sch (GInt i) head tail sample random_state fn args kwargs)))
        \<subseteq> {(None, None, None, None)}
   \<and> set (sampling_args
        (fst (check_input sch (GStr name) head tail sample random_state fn args kwargs)))
        \<subseteq> {(None, None, None, None)}
   \<and> check_input sch (GInt i) head tail sample random_state fn args kwargs =
      check_input sch (GInt i) None None None None fn args kwargs
   \<and> check_input sch (GStr name) head tail sample random_state fn args kwargs =
      check_input sch (GStr name) None None None None fn args kwargs"
proof -
  have a: "args \<noteq> [] \<longrightarrow>
      sampling_args
        (fst (check_input sch GNone head tail sample random_state fn args kwargs)) =
        [(head, tail, sample, random_state)]"
    by (simp add: check_input_def list_index_def split: sum.splits)
  have b: "set (sampling_args
        (fst (check_input sch (GInt i) head tail sample random_state fn args kwargs)))
        \<subseteq> {(None, None, None, None)}"
    by (simp add: check_input_def split: sum.splits)
  have c: "set (sampling_args
        (fst (check_input sch (GStr name) head tail sample random_state fn args kwargs)))
        \<subseteq> {(None, None, None, None)}"
    by (simp add: check_input_def Let_def split: sum.splits option.splits)
  have d: "check_input sch (GInt i) head tail sample random_state fn args kwargs =
      check_input sch (GInt i) None None None None fn args kwargs"
    by (simp add: check_input_def)
  have e: "check_input sch (GStr name) head tail sample random_state fn args kwargs =
      check_input sch (GStr name) None None None None fn args kwargs"
    by (simp add: check_input_def)
  from a b c d e show ?thesis by blast
qed

theorem sampling_forwarded_on_None_path_only_witness:
  "[example_frame, PInt 1] \<noteq> []
   \<and> sampling_args
        (fst (check_input accepting_schema GNone (Some 3) (Some 2) (Some 5) (Some 0)
                example_fn [example_frame, PInt 1] [])) =
        [(Some 3, Some 2, Some 5, Some 0)]
   \<and> sampling_args
        (fst (check_input accepting_schema (GInt 0) (Some 3) (Some 2) (Some 5) (Some 0)
                example_fn [example_frame, PInt 1] [])) =
        [(None, None, None, None)]
   \<and> sampling_args
        (fst (check_input accepting_schema (GStr ''x'') (Some 3) (Some 2) (Some 5) (Some 0)
                example_fn [example_frame, PInt 1] [])) =
        [(None, None, None, None)]"
proof -
  have h: "[example_frame, PInt 1] \<noteq> []"
    by simp
  have i: "sampling_args
        (fst (check_input accepting_schema (GInt 0) None None None None
                example_fn [example_frame, PInt 1] [])) =
        [(None, None, None, None)]"
    by (simp add: check_input_def list_index_def accepting_schema_def)
  have s: "sampling_args
        (fst (check_input accepting_schema (GStr ''x'') None None None None
                example_fn [example_frame, PInt 1] [])) =
        [(None, None, None, None)]"
    by (simp add: check_input_def accepting_schema_def get_fn_argnames_def example_fn_def
        OrderedDict_def Let_def)
  show ?thesis
    using h i s
      sampling_forwarded_on_None_path_only [of "[example_frame, PInt 1]" accepting_schema
        "Some 3" "Some 2" "Some 5" "Some 0" example_fn "[]" 0 "''x''"]
    by simp
qed

section \<open>Arguments that are not there\<close>

text \<open>
  Claim C9.  With a string \<^verbatim>\<open>obj_getter\<close> that is not a key of the keyword arguments
  and is not among the names that zipping the declared parameter names with the
  positional arguments binds, \<^verbatim>\<open>check_input\<close> raises \<open>KeyError\<close> for that name, and
  neither validates anything nor calls the wrapped function.
\<close>

theorem check_input_unbound_name_KeyError:
  assumes "map_of kwargs name = None"
    and "get_fn_argnames fn = Inr names"
    and "name \<notin> fst ` set (zip names args)"
  shows "check_input sch (GStr name) head tail sample random_state fn args kwargs =
     ([], Inl (KeyError (PStr name)))"
proof -
  have "map_of (OrderedDict (zip names args)) name = None"
    using assms(3) by (simp add: map_of_None_keys keys_OrderedDict)
  then show ?thesis using assms(1,2) by (simp add: check_input_def)
qed

theorem check_input_unbound_name_KeyError_witness:
  "map_of ([] :: (string \<times> pyval) list) ''df'' = None
   \<and> get_fn_argnames example_fn = Inr [''x'', ''df'']
   \<and> ''df'' \<notin> fst ` set (zip [''x'', ''df''] [PInt 1])
   \<and> check_input accepting_schema (GStr ''df'') None None None None example_fn [PInt 1] [] =
       ([], Inl (KeyError (PStr ''df'')))"
proof -
  have h1: "map_of ([] :: (string \<times> pyval) list) ''df'' = None"
    by simp
  have h2: "get_fn_argnames example_fn = Inr [''x'', ''df'']"
    by (simp add: get_fn_argnames_def example_fn_def)
  have h3: "''df'' \<notin> fst ` set (zip [''x'', ''df''] [PInt 1])"
    by simp
  show ?thesis
    using h1 h2 h3 check_input_unbound_name_KeyError [OF h1 h2 h3] by simp
qed

text \<open>
  Claim C10.  With \<^verbatim>\<open>obj_getter\<close> \<^verbatim>\<open>None\<close> and no positional argument,
  \<^verbatim>\<open>check_input\<close> raises the \<open>IndexError\<close> of \<^verbatim>\<open>args[0]\<close>, whatever the keyword
  arguments hold, and neither validates anything nor calls the wrapped function.
\<close>

theorem check_input_None_without_positional_IndexError:
  "check_input sch GNone head tail sample random_state fn [] kwargs =
     ([], Inl (IndexError ''list index out of range''))"
  by (simp add: check_input_def list_index_def except_SchemaError_def)

end
